theory Spec2Isabelle
  imports Main "HOL-Library.Char_ord" "HOL-Library.List_Lexorder" "HOL-Library.Multiset"
begin

section \<open>Paths\<close>

text \<open>
  A path is the list of its components. The strings handed to \<^verbatim>\<open>filepath.Join\<close> are
  split at the separator and cleaned lexically, as \<^verbatim>\<open>filepath.Clean\<close> does: empty
  components and \<^verbatim>\<open>.\<close> disappear, \<^verbatim>\<open>..\<close> removes the component before it.
  Paths are taken relative to one fixed base directory (the working directory, or the
  root when the cache directory is absolute). Where the program joins further elements
  onto a path it has joined before, the first argument of \<open>filepath_Join\<close> is that
  path, already clean and in components, and the cleaning goes on from it.
\<close>

type_synonym path = "string list"

fun split_path :: "string \<Rightarrow> string \<Rightarrow> string list" where
  "split_path acc [] = [rev acc]"
| "split_path acc (c # cs) =
     (if c = CHR ''/'' then rev acc # split_path [] cs else split_path (c # acc) cs)"

fun clean_step :: "path \<Rightarrow> string \<Rightarrow> path" where
  "clean_step st c =
     (if c = [] \<or> c = ''.'' then st
      else if c = ''..'' then
        (if st = [] \<or> last st = ''..'' then st @ [c] else butlast st)
      else st @ [c])"

definition filepath_Clean :: "path \<Rightarrow> string list \<Rightarrow> path" where
  "filepath_Clean st cs = foldl clean_step st cs"

definition filepath_Join :: "path \<Rightarrow> string list \<Rightarrow> path" where
  "filepath_Join base elems = filepath_Clean base (concat (map (split_path []) elems))"

definition filepath_Dir :: "path \<Rightarrow> path" where
  "filepath_Dir p = butlast p"

definition filepath_Base :: "path \<Rightarrow> string" where
  "filepath_Base p = (if p = [] then ''.'' else last p)"

text \<open>A plain component: what a Kubernetes object name or a formatted timestamp is.\<close>

definition plain :: "string \<Rightarrow> bool" where
  "plain c \<longleftrightarrow> c \<noteq> [] \<and> c \<noteq> ''.'' \<and> c \<noteq> ''..'' \<and> CHR ''/'' \<notin> set c"

section \<open>The file system\<close>

text \<open>
  The disk is the list of its nodes, each under its path, in the order in which the file
  system enumerates them. A node is a regular file with its content, a directory with its
  modification time, or a symbolic link with its target. Only directories carry a time:
  it is the only time the program reads. The operations are those the program calls, with
  the failures that depend on what is on the disk; failures of the device and of
  permissions are left out. Links are followed where the program relies on it, at the
  last component of the path given to \<^verbatim>\<open>os.Stat\<close> and \<^verbatim>\<open>os.Chtimes\<close> and at the root of a
  view; the program creates links only beside the Snapshot directories, never inside them.
\<close>

type_synonym time = int

datatype node = File string | Dir time | Symlink string

type_synonym filesys = "(path \<times> node) list"

datatype errno = ENOENT | ENOTDIR | EISDIR | EEXIST | ELOOP | EINVAL

definition lookup :: "filesys \<Rightarrow> path \<Rightarrow> node option" where
  "lookup fs p = map_of fs p"

fun put :: "path \<Rightarrow> node \<Rightarrow> filesys \<Rightarrow> filesys" where
  "put p n [] = [(p, n)]"
| "put p n ((q, m) # fs) = (if q = p then (p, n) # fs else (q, m) # put p n fs)"

definition is_prefix :: "path \<Rightarrow> path \<Rightarrow> bool" where
  "is_prefix d p \<longleftrightarrow> take (length d) p = d"

definition touch_parent :: "time \<Rightarrow> path \<Rightarrow> filesys \<Rightarrow> filesys" where
  "touch_parent now p fs =
     (case lookup fs (butlast p) of
        Some (Dir _) \<Rightarrow> if p = [] then fs else put (butlast p) (Dir now) fs
      | _ \<Rightarrow> fs)"

text \<open>
  \<^verbatim>\<open>os.Stat\<close> follows symbolic links; a link's target is relative to the directory
  holding the link. The kernel gives up after 40 links.
\<close>

fun follow :: "nat \<Rightarrow> filesys \<Rightarrow> path \<Rightarrow> errno + (path \<times> node)" where
  "follow 0 fs p = Inl ELOOP"
| "follow (Suc n) fs p =
     (case lookup fs p of
        None \<Rightarrow> Inl ENOENT
      | Some (Symlink t) \<Rightarrow> follow n fs (filepath_Join (butlast p) [t])
      | Some nd \<Rightarrow> Inr (p, nd))"

definition os_Stat :: "filesys \<Rightarrow> path \<Rightarrow> errno + node" where
  "os_Stat fs p = (case follow 40 fs p of Inl e \<Rightarrow> Inl e | Inr (_, nd) \<Rightarrow> Inr nd)"

text \<open>
  \<^verbatim>\<open>os.MkdirAll\<close>: every missing directory on the way is created, an existing directory
  is kept, anything else on the way is an error. A directory that gains an entry gets the
  wall-clock time as its modification time. On a disk where every node has its parent
  directory, a call that fails has created nothing.
\<close>

fun mkdirs :: "time \<Rightarrow> path \<Rightarrow> string list \<Rightarrow> filesys \<Rightarrow> errno + filesys" where
  "mkdirs now done [] fs = Inr fs"
| "mkdirs now done (c # cs) fs =
     (case lookup fs (done @ [c]) of
        None \<Rightarrow> mkdirs now (done @ [c]) cs (put (done @ [c]) (Dir now) (touch_parent now (done @ [c]) fs))
      | Some (Dir _) \<Rightarrow> mkdirs now (done @ [c]) cs fs
      | Some _ \<Rightarrow> Inl ENOTDIR)"

definition os_MkdirAll :: "time \<Rightarrow> path \<Rightarrow> filesys \<Rightarrow> errno + filesys" where
  "os_MkdirAll now p fs = mkdirs now [] p fs"

text \<open>\<^verbatim>\<open>os.WriteFile\<close>: creates the file or truncates and overwrites it.\<close>

definition os_WriteFile :: "time \<Rightarrow> path \<Rightarrow> string \<Rightarrow> filesys \<Rightarrow> errno + filesys" where
  "os_WriteFile now p b fs =
     (case lookup fs (butlast p) of
        Some (Dir _) \<Rightarrow>
          (case lookup fs p of
             None \<Rightarrow> Inr (put p (File b) (touch_parent now p fs))
           | Some (File _) \<Rightarrow> Inr (put p (File b) fs)
           | Some (Dir _) \<Rightarrow> Inl EISDIR
           | Some (Symlink _) \<Rightarrow> Inl ELOOP)
      | None \<Rightarrow> Inl ENOENT
      | Some _ \<Rightarrow> Inl ENOTDIR)"

text \<open>
  \<^verbatim>\<open>os.Chtimes\<close> hands the time to the kernel as a number of nanoseconds in 64 bits
  (\<^verbatim>\<open>Time.UnixNano\<close>, which wraps around for a time before the year 1678 or after 2262),
  split into seconds and nanoseconds with the seconds rounded down, and leaves the time
  of the file as it is when the time given is the zero \<^verbatim>\<open>Time\<close>, the first instant of the
  year 1.
\<close>

definition zero_Time :: time where
  "zero_Time = - 62135596800"

definition Time_UnixNano :: "time \<Rightarrow> int" where
  "Time_UnixNano t =
     (t * 1000000000 + 9223372036854775808) mod 18446744073709551616 - 9223372036854775808"

definition os_Chtimes :: "path \<Rightarrow> time \<Rightarrow> filesys \<Rightarrow> errno + filesys" where
  "os_Chtimes p t fs =
     (case follow 40 fs p of
        Inl e \<Rightarrow> Inl e
      | Inr (q, Dir old) \<Rightarrow>
          Inr (put q (Dir (if t = zero_Time then old else Time_UnixNano t div 1000000000)) fs)
      | Inr (q, _) \<Rightarrow> Inr fs)"

definition os_Symlink :: "time \<Rightarrow> string \<Rightarrow> path \<Rightarrow> filesys \<Rightarrow> errno + filesys" where
  "os_Symlink now target p fs =
     (case lookup fs p of
        Some _ \<Rightarrow> Inl EEXIST
      | None \<Rightarrow>
          (case lookup fs (butlast p) of
             Some (Dir _) \<Rightarrow> Inr (put p (Symlink target) (touch_parent now p fs))
           | None \<Rightarrow> Inl ENOENT
           | Some _ \<Rightarrow> Inl ENOTDIR))"

definition remove :: "path \<Rightarrow> filesys \<Rightarrow> filesys" where
  "remove p fs = filter (\<lambda>e. fst e \<noteq> p) fs"

text \<open>
  \<^verbatim>\<open>os.Rename\<close> of a symbolic link: it replaces a file or a link of the new name in one
  step, and fails on a directory of the new name.
\<close>

definition os_Rename :: "time \<Rightarrow> path \<Rightarrow> path \<Rightarrow> filesys \<Rightarrow> errno + filesys" where
  "os_Rename now old new fs =
     (case lookup fs old of
        None \<Rightarrow> Inl ENOENT
      | Some (Dir _) \<Rightarrow> Inl EISDIR
      | Some nd \<Rightarrow>
          (case lookup fs new of
             Some (Dir _) \<Rightarrow> Inl EISDIR
           | _ \<Rightarrow> if old = new then Inr fs
                  else Inr (put new nd (remove old (touch_parent now new fs)))))"

text \<open>\<^verbatim>\<open>os.RemoveAll\<close>: the path and everything below it; a missing path is no error.\<close>

definition os_RemoveAll :: "path \<Rightarrow> filesys \<Rightarrow> filesys" where
  "os_RemoveAll d fs = filter (\<lambda>e. \<not> is_prefix d (fst e)) fs"

text \<open>\<^verbatim>\<open>os.ReadDir\<close>: the entries of a directory, in the order the file system holds them.\<close>

definition os_ReadDir :: "filesys \<Rightarrow> path \<Rightarrow> errno + (string \<times> node) list" where
  "os_ReadDir fs d =
     (case lookup fs d of
        None \<Rightarrow> Inl ENOENT
      | Some (Dir _) \<Rightarrow>
          Inr (map (\<lambda>e. (last (fst e), snd e))
                 (filter (\<lambda>e. fst e \<noteq> [] \<and> butlast (fst e) = d) fs))
      | Some _ \<Rightarrow> Inl ENOTDIR)"

section \<open>The catalog stream and the eviction cache\<close>

text \<open>
  \<^verbatim>\<open>declcfg.Meta\<close>, and the stream \<^verbatim>\<open>declcfg.WalkMetasReader\<close> hands to its callback:
  one call per decoded record, or one call with the decoding error, after which the walk
  stops.
\<close>

record meta =
  Schema :: string
  Package :: string
  Name :: string
  Blob :: string

datatype item = Meta meta | Undecodable

definition SchemaPackage :: string where
  "SchemaPackage = ''olm.package''"

datatype error =
    StatError errno
  | TransportError
  | ParseTimeError
  | DecodeError
  | IOError errno

text \<open>
  The functions of the Go library the client calls on times: \<^verbatim>\<open>http.ParseTime\<close>,
  \<^verbatim>\<open>Format(http.TimeFormat)\<close> and \<^verbatim>\<open>Format("20060102_150405")\<close>, both of the time in
  UTC, and the wall clock. A time is a number of seconds since the first instant of 1970,
  negative before it.
\<close>

record env =
  http_ParseTime :: "string \<Rightarrow> time option"
  format_TimeFormat :: "time \<Rightarrow> string"
  format_Stamp :: "time \<Rightarrow> string"
  clock :: time

record request =
  url :: string
  If_Modified_Since :: "string option"

datatype response =
    NoResponse
  | Response (StatusCode: nat) (Last_Modified: string) (Body: "item list")

text \<open>
  Modelled from the spec: the eviction cache (\<^verbatim>\<open>expirable.LRU\<close>, a library outside the
  repository), as section 4.3 describes it: a registry of at most 100 entries, most
  recently touched first; touching an entry moves it to the front; a new entry beyond the
  capacity drops the oldest one; a dropped or expired entry is handed to the deletion
  callback.
\<close>

type_synonym lru = "(string \<times> path) list"

definition lru_size :: nat where
  "lru_size = 100"

definition lru_Add :: "string \<Rightarrow> path \<Rightarrow> lru \<Rightarrow> lru \<times> (string \<times> path) list" where
  "lru_Add k v l =
     (if map_of l k \<noteq> None then ((k, v) # filter (\<lambda>e. fst e \<noteq> k) l, [])
      else if length ((k, v) # l) > lru_size then (butlast ((k, v) # l), [last ((k, v) # l)])
      else ((k, v) # l, []))"

definition lru_expire :: "string \<Rightarrow> lru \<Rightarrow> lru \<times> (string \<times> path) list" where
  "lru_expire k l = (filter (\<lambda>e. fst e \<noteq> k) l, filter (\<lambda>e. fst e = k) l)"

record cachingClient =
  baseURL :: string
  cacheDir :: string
  httpClient :: "request \<Rightarrow> response"
  lru :: lru

text \<open>The deletion callback \<^verbatim>\<open>newCachingClient\<close> registers.\<close>

definition onEvict :: "string \<times> path \<Rightarrow> filesys \<Rightarrow> filesys" where
  "onEvict e fs = os_RemoveAll (snd e) fs"

definition newCachingClient :: "string \<Rightarrow> string \<Rightarrow> (request \<Rightarrow> response) \<Rightarrow> cachingClient" where
  "newCachingClient dir base cl = \<lparr>baseURL = base, cacheDir = dir, httpClient = cl, lru = []\<rparr>"

section \<open>writeCatalog\<close>

definition packageName :: "meta \<Rightarrow> string" where
  "packageName m =
     (let pn = (if Schema m = SchemaPackage then Name m else Package m)
      in if pn = [] then ''__global'' else pn)"

definition metaPath :: "path \<Rightarrow> meta \<Rightarrow> path" where
  "metaPath catalogDir m = filepath_Join catalogDir [packageName m, Schema m, Name m @ ''.json'']"

definition writeMeta :: "time \<Rightarrow> path \<Rightarrow> meta \<Rightarrow> filesys \<Rightarrow> error option \<times> filesys" where
  "writeMeta now catalogDir m fs =
     (case os_MkdirAll now (filepath_Dir (metaPath catalogDir m)) fs of
        Inl e \<Rightarrow> (Some (IOError e), fs)
      | Inr fs1 \<Rightarrow>
          (case os_WriteFile now (metaPath catalogDir m) (Blob m) fs1 of
             Inl e \<Rightarrow> (Some (IOError e), fs1)
           | Inr fs2 \<Rightarrow> (None, fs2)))"

fun writeCatalog :: "time \<Rightarrow> path \<Rightarrow> item list \<Rightarrow> filesys \<Rightarrow> error option \<times> filesys" where
  "writeCatalog now catalogDir [] fs = (None, fs)"
| "writeCatalog now catalogDir (Undecodable # r) fs = (Some DecodeError, fs)"
| "writeCatalog now catalogDir (Meta m # r) fs =
     (case writeMeta now catalogDir m fs of
        (Some e, fs1) \<Rightarrow> (Some e, fs1)
      | (None, fs1) \<Rightarrow> writeCatalog now catalogDir r fs1)"

section \<open>getCatalogFS\<close>

record result =
  fsys :: "path option"
  err :: "error option"
  cache :: lru
  disk :: filesys

definition catalogPath :: "cachingClient \<Rightarrow> string \<Rightarrow> path" where
  "catalogPath c name = filepath_Join [] [cacheDir c, ''clustercatalogs'', name]"

definition activeSymlinkPath :: "cachingClient \<Rightarrow> string \<Rightarrow> path" where
  "activeSymlinkPath c name = filepath_Join (catalogPath c name) [''active'']"

definition nextSymlinkPath :: "cachingClient \<Rightarrow> string \<Rightarrow> path" where
  "nextSymlinkPath c name = filepath_Join (catalogPath c name) [''next'']"

text \<open>Line 39: the catalog is registered; entries the cache drops go to the callback.\<close>

definition touch :: "cachingClient \<Rightarrow> string \<Rightarrow> filesys \<Rightarrow> lru \<times> filesys" where
  "touch c name fs =
     (case lru_Add name (catalogPath c name) (lru c) of
        (l, evicted) \<Rightarrow> (l, fold onEvict evicted fs))"

text \<open>
  Lines 41 to 57: the request, conditional when the active pointer is a directory. The
  construction of the request itself (line 49) fails only on a malformed URL and is taken
  to succeed.
\<close>

definition newRequest :: "env \<Rightarrow> cachingClient \<Rightarrow> string \<Rightarrow> filesys \<Rightarrow> errno + request" where
  "newRequest ev c name fs =
     (let u = baseURL c @ ''/catalogs/'' @ name @ ''/all.json'' in
      case os_Stat fs (activeSymlinkPath c name) of
        Inl e \<Rightarrow> if e = ENOENT then Inr \<lparr>url = u, If_Modified_Since = None\<rparr> else Inl e
      | Inr (Dir modTime) \<Rightarrow>
          Inr \<lparr>url = u, If_Modified_Since = Some (format_TimeFormat ev modTime)\<rparr>
      | Inr _ \<Rightarrow> Inr \<lparr>url = u, If_Modified_Since = None\<rparr>)"

text \<open>Lines 75 to 92: the snapshot is written, stamped, linked and published.\<close>

definition publish ::
  "env \<Rightarrow> cachingClient \<Rightarrow> string \<Rightarrow> time \<Rightarrow> item list \<Rightarrow> filesys \<Rightarrow> (error + path) \<times> filesys" where
  "publish ev c name modTime body fs =
     (let realCatalogPath = filepath_Join (catalogPath c name) [format_Stamp ev modTime] in
      case writeCatalog (clock ev) realCatalogPath body fs of
        (Some e, fs1) \<Rightarrow> (Inl e, fs1)
      | (None, fs1) \<Rightarrow>
          (case os_Chtimes realCatalogPath modTime fs1 of
             Inl e \<Rightarrow> (Inl (IOError e), fs1)
           | Inr fs2 \<Rightarrow>
               (case os_Symlink (clock ev) (filepath_Base realCatalogPath)
                       (nextSymlinkPath c name) fs2 of
                  Inl e \<Rightarrow> (Inl (IOError e), fs2)
                | Inr fs3 \<Rightarrow>
                    (case os_Rename (clock ev) (nextSymlinkPath c name)
                            (activeSymlinkPath c name) fs3 of
                       Inl e \<Rightarrow> (Inl (IOError e), fs3)
                     | Inr fs4 \<Rightarrow> (Inr (activeSymlinkPath c name), fs4)))))"

definition getCatalogFS :: "env \<Rightarrow> cachingClient \<Rightarrow> string \<Rightarrow> filesys \<Rightarrow> result" where
  "getCatalogFS ev c name fs =
     (case touch c name fs of
        (l, fs0) \<Rightarrow>
          (case newRequest ev c name fs0 of
             Inl e \<Rightarrow> \<lparr>fsys = None, err = Some (StatError e), cache = l, disk = fs0\<rparr>
           | Inr req \<Rightarrow>
               (case httpClient c req of
                  NoResponse \<Rightarrow> \<lparr>fsys = None, err = Some TransportError, cache = l, disk = fs0\<rparr>
                | Response status lm body \<Rightarrow>
                    if status = 304
                    then \<lparr>fsys = Some (activeSymlinkPath c name), err = None, cache = l, disk = fs0\<rparr>
                    else if status \<noteq> 200
                    then \<lparr>fsys = None, err = None, cache = l, disk = fs0\<rparr>
                    else
                      (case http_ParseTime ev lm of
                         None \<Rightarrow> \<lparr>fsys = None, err = Some ParseTimeError, cache = l, disk = fs0\<rparr>
                       | Some modTime \<Rightarrow>
                           (case publish ev c name modTime body fs0 of
                              (Inl e, fs1) \<Rightarrow> \<lparr>fsys = None, err = Some e, cache = l, disk = fs1\<rparr>
                            | (Inr v, fs1) \<Rightarrow> \<lparr>fsys = Some v, err = None, cache = l, disk = fs1\<rparr>)))))"

section \<open>The query handlers\<close>

text \<open>
  \<^verbatim>\<open>os.DirFS\<close> resolves a name below its root when it is read, following the root's link
  at that moment. A name is valid (\<^verbatim>\<open>fs.ValidPath\<close>) when none of its elements is empty,
  \<^verbatim>\<open>.\<close> or \<^verbatim>\<open>..\<close>; the root itself is the name \<^verbatim>\<open>.\<close>, here the empty list.
\<close>

definition fs_ValidPath :: "string list \<Rightarrow> bool" where
  "fs_ValidPath cs = list_all (\<lambda>c. c \<noteq> [] \<and> c \<noteq> ''.'' \<and> c \<noteq> ''..'') cs"

definition rawName :: "string \<Rightarrow> string list" where
  "rawName s = (if s = ''.'' then [] else split_path [] s)"

definition dirFS_join :: "filesys \<Rightarrow> path \<Rightarrow> string list \<Rightarrow> errno + path" where
  "dirFS_join fs root name =
     (if \<not> fs_ValidPath name then Inl EINVAL
      else case follow 40 fs root of
        Inl e \<Rightarrow> Inl e
      | Inr (q, Dir _) \<Rightarrow> Inr (q @ name)
      | Inr (q, _) \<Rightarrow> if name = [] then Inr q else Inl ENOTDIR)"

definition fs_ReadDir :: "filesys \<Rightarrow> path \<Rightarrow> string list \<Rightarrow> errno + (string \<times> node) list" where
  "fs_ReadDir fs root name =
     (case dirFS_join fs root name of Inl e \<Rightarrow> Inl e | Inr p \<Rightarrow> os_ReadDir fs p)"

definition fs_ReadFile :: "filesys \<Rightarrow> path \<Rightarrow> string list \<Rightarrow> errno + string" where
  "fs_ReadFile fs root name =
     (case dirFS_join fs root name of
        Inl e \<Rightarrow> Inl e
      | Inr p \<Rightarrow>
          (case follow 40 fs p of
             Inl e \<Rightarrow> Inl e
           | Inr (_, File b) \<Rightarrow> Inr b
           | Inr (_, _) \<Rightarrow> Inl EISDIR))"

definition IsDir :: "node \<Rightarrow> bool" where
  "IsDir nd = (case nd of Dir _ \<Rightarrow> True | _ \<Rightarrow> False)"

definition strings_TrimSuffix :: "string \<Rightarrow> string \<Rightarrow> string" where
  "strings_TrimSuffix s suffix =
     (if length suffix \<le> length s \<and> drop (length s - length suffix) s = suffix
      then take (length s - length suffix) s else s)"

definition sort_Strings :: "string list \<Rightarrow> string list" where
  "sort_Strings xs = sort xs"

text \<open>
  What a handler answers: a JSON array of names, raw bytes with a content type, or one of
  the error statuses. A handler that panics answers nothing; the server drops the
  connection.
\<close>

datatype reply =
    Names "string list"
  | Content string string
  | NotFound string
  | InternalServerError
  | ServiceUnavailable
  | MovedPermanently
  | Panic

text \<open>\<^verbatim>\<open>declcfg.Package\<close> as far as the icon handler reads it, and \<^verbatim>\<open>json.Unmarshal\<close> into it.\<close>

record icon =
  MediaType :: string
  Data :: string

record package =
  Icon :: "icon option"

type_synonym unmarshal = "string \<Rightarrow> package option"

text \<open>
  Each handler first looks the catalog up, requires its phase to be unpacked and asks
  the client for the file system view (lines 126 to 141 of the first handler, the same in
  the others). \<open>unpacked\<close> is the outcome of the phase check; the look-up of the
  catalog itself is outside the model.
\<close>

definition withCatalogFS :: "bool \<Rightarrow> result \<Rightarrow> (path \<Rightarrow> reply) \<Rightarrow> reply" where
  "withCatalogFS unpacked r k =
     (if \<not> unpacked then ServiceUnavailable
      else case err r of
        Some e \<Rightarrow> InternalServerError
      | None \<Rightarrow> (case fsys r of None \<Rightarrow> Panic | Some v \<Rightarrow> k v))"


definition listPackageSchemas :: "filesys \<Rightarrow> path \<Rightarrow> string \<Rightarrow> reply" where
  "listPackageSchemas fs v pkg =
     (case fs_ReadDir fs v (rawName pkg) of
        Inl e \<Rightarrow> InternalServerError
      | Inr entries \<Rightarrow> Names (sort_Strings (map fst (filter (\<lambda>e. IsDir (snd e)) entries))))"

definition listObjects :: "filesys \<Rightarrow> path \<Rightarrow> string \<Rightarrow> string \<Rightarrow> reply" where
  "listObjects fs v pkg schema =
     (case fs_ReadDir fs v (filepath_Join [] [pkg, schema]) of
        Inl e \<Rightarrow> InternalServerError
      | Inr entries \<Rightarrow>
          Names (sort_Strings (map (\<lambda>e. strings_TrimSuffix (fst e) ''.json'')
                                 (filter (\<lambda>e. \<not> IsDir (snd e)) entries))))"

text \<open>
  \<^verbatim>\<open>http.ServeFileFS\<close>: a missing file is answered with 404, a directory with a redirect,
  any other failure with 500. The content type is left to the library.
\<close>

definition getObject :: "filesys \<Rightarrow> path \<Rightarrow> string \<Rightarrow> string \<Rightarrow> string \<Rightarrow> reply" where
  "getObject fs v pkg schema objectName =
     (case dirFS_join fs v (filepath_Join [] [pkg, schema, objectName @ ''.json'']) of
        Inl e \<Rightarrow> if e = ENOENT then NotFound ''404 page not found'' else InternalServerError
      | Inr p \<Rightarrow>
          (case follow 40 fs p of
             Inl e \<Rightarrow> if e = ENOENT then NotFound ''404 page not found'' else InternalServerError
           | Inr (_, File b) \<Rightarrow> Content [] b
           | Inr (_, _) \<Rightarrow> MovedPermanently))"

definition getPackageIcon :: "unmarshal \<Rightarrow> filesys \<Rightarrow> path \<Rightarrow> string \<Rightarrow> reply" where
  "getPackageIcon json_Unmarshal fs v pkg =
     (case fs_ReadFile fs v (filepath_Join [] [pkg, SchemaPackage, pkg @ ''.json'']) of
        Inl e \<Rightarrow> if e = ENOENT then NotFound ''package not found'' else InternalServerError
      | Inr pkgData \<Rightarrow>
          (case json_Unmarshal pkgData of
             None \<Rightarrow> InternalServerError
           | Some p \<Rightarrow>
               (case Icon p of
                  None \<Rightarrow> NotFound ''icon not found''
                | Some i \<Rightarrow> Content (MediaType i) (Data i))))"

section \<open>Example states\<close>

text \<open>
  A concrete environment: two instants with their HTTP dates and their directory stamps,
  a client with the default cache directory, and a catalog of one package with one bundle.
  \<open>ex_first\<close> is the first call for the catalog \<^verbatim>\<open>hub\<close> on an empty disk.
\<close>

definition ex_ParseTime :: "string \<Rightarrow> time option" where
  "ex_ParseTime s =
     (if s = ''Mon, 02 Jan 2006 15:04:05 GMT'' then Some 1136214245
      else if s = ''Tue, 03 Jan 2006 15:04:05 GMT'' then Some 1136300645
      else if s = ''Wed, 01 Jan 3000 00:00:00 GMT'' then Some 32503680000
      else None)"

definition ex_TimeFormat :: "time \<Rightarrow> string" where
  "ex_TimeFormat t =
     (if t = 1136214245 then ''Mon, 02 Jan 2006 15:04:05 GMT''
      else if t = 1136300645 then ''Tue, 03 Jan 2006 15:04:05 GMT''
      else if t = 32503680000 then ''Wed, 01 Jan 3000 00:00:00 GMT''
      else if t = - 4389808148 then ''Tue, 23 Nov 1830 00:50:52 GMT''
      else ''Thu, 01 Jan 1970 00:00:00 GMT'')"

definition ex_Stamp :: "time \<Rightarrow> string" where
  "ex_Stamp t =
     (if t = 1136214245 then ''20060102_150405''
      else if t = 1136300645 then ''20060103_150405''
      else if t = 32503680000 then ''30000101_000000''
      else ''19700101_000000'')"

definition ex_env :: env where
  "ex_env = \<lparr>http_ParseTime = ex_ParseTime, format_TimeFormat = ex_TimeFormat,
            format_Stamp = ex_Stamp, clock = 1136300000\<rparr>"

definition ex_client :: "(request \<Rightarrow> response) \<Rightarrow> lru \<Rightarrow> cachingClient" where
  "ex_client srv l = (newCachingClient ''cache'' ''https://localhost:8443'' srv)\<lparr>lru := l\<rparr>"

definition ex_package :: meta where
  "ex_package = \<lparr>Schema = ''olm.package'', Package = [], Name = ''etcd'', Blob = ''{p1}''\<rparr>"

definition ex_bundle :: meta where
  "ex_bundle = \<lparr>Schema = ''olm.bundle'', Package = ''etcd'', Name = ''etcd.v1'', Blob = ''{b1}''\<rparr>"

text \<open>A remote source that gives the same answer to every request.\<close>

definition always :: "response \<Rightarrow> request \<Rightarrow> response" where
  "always r req = r"

definition ex_client_first :: cachingClient where
  "ex_client_first =
     ex_client (always (Response 200 ''Mon, 02 Jan 2006 15:04:05 GMT''
                          [Meta ex_package, Meta ex_bundle])) []"

definition ex_first :: result where
  "ex_first = getCatalogFS ex_env ex_client_first ''hub'' []"

definition ex_package2 :: meta where
  "ex_package2 = \<lparr>Schema = ''olm.package'', Package = [], Name = ''etcd'', Blob = ''{p2}''\<rparr>"

definition ex_bundle2 :: meta where
  "ex_bundle2 = \<lparr>Schema = ''olm.bundle'', Package = ''etcd'', Name = ''etcd.v2'', Blob = ''{b2}''\<rparr>"

definition ex_snapshot :: path where
  "ex_snapshot = [''cache'', ''clustercatalogs'', ''hub'', ''20060102_150405'']"

definition ex_active :: path where
  "ex_active = [''cache'', ''clustercatalogs'', ''hub'', ''active'']"

definition ex_Unmarshal :: unmarshal where
  "ex_Unmarshal s =
     (if s = ''{p1}'' then Some \<lparr>Icon = None\<rparr>
      else if s = ''{p2}''
      then Some \<lparr>Icon = Some \<lparr>MediaType = ''image/svg+xml'', Data = ''<svg/>''\<rparr>\<rparr>
      else None)"

text \<open>
  What holds of the cache in every state the client reaches from the empty cache with
  plain catalog names: each entry maps a plain name to the directory of that catalog.
\<close>

definition lru_ok :: "cachingClient \<Rightarrow> lru \<Rightarrow> bool" where
  "lru_ok c l = list_all (\<lambda>e. plain (fst e) \<and> snd e = catalogPath c (fst e)) l"

text \<open>
  A cache at its capacity: one hundred other catalogs have been touched since the process
  started, the oldest of them with a directory on disk beside the one of \<^verbatim>\<open>hub\<close>.
\<close>

definition ex_key :: "nat \<Rightarrow> string" where
  "ex_key n = ''catalog-'' @ replicate n CHR ''x''"

definition ex_lru_full :: lru where
  "ex_lru_full = map (\<lambda>n. (ex_key n, [''cache'', ''clustercatalogs'', ex_key n])) [0..<100]"

definition ex_oldest :: path where
  "ex_oldest = [''cache'', ''clustercatalogs'', ex_key 99]"

definition ex_disk_full :: filesys where
  "ex_disk_full = disk ex_first @
     [(ex_oldest, Dir 1136200000), (ex_oldest @ [''active''], Symlink ''20060101_000000'')]"

definition ex_client_304 :: cachingClient where
  "ex_client_304 = ex_client (always (Response 304 [] [])) (cache ex_first)"

definition ex_client_undated :: cachingClient where
  "ex_client_undated =
     ex_client (always (Response 200 ''yesterday'' [Meta ex_package2])) (cache ex_first)"

definition ex_client_undated_full :: cachingClient where
  "ex_client_undated_full =
     ex_client (always (Response 200 ''yesterday'' [Meta ex_package2])) ex_lru_full"

definition ex_request :: request where
  "ex_request = \<lparr>url = ''https://localhost:8443/catalogs/hub/all.json'',
                 If_Modified_Since = Some ''Mon, 02 Jan 2006 15:04:05 GMT''\<rparr>"

text \<open>
  The expiry of an entry after its time to live: the cache drops it and hands it to the
  deletion callback, as it does with an entry displaced by a new one. When the timer
  fires is outside the model.
\<close>

definition expire :: "cachingClient \<Rightarrow> string \<Rightarrow> filesys \<Rightarrow> lru \<times> filesys" where
  "expire c k fs =
     (case lru_expire k (lru c) of (l, evicted) \<Rightarrow> (l, fold onEvict evicted fs))"

definition ex_client_full :: cachingClient where
  "ex_client_full = ex_client (always (Response 304 [] [])) ex_lru_full"






text \<open>
  The bucket in the words of the specification: the record's name when the schema is the
  package schema, otherwise the record's package, otherwise \<^verbatim>\<open>__global\<close> when the package
  is empty. It is compared below with \<open>packageName\<close>, which is what the code computes.
\<close>

definition spec_bucket :: "meta \<Rightarrow> string" where
  "spec_bucket m =
     (if Schema m = SchemaPackage then Name m
      else if Package m = [] then ''__global'' else Package m)"

text \<open>
  What a stream leaves at a path when all of it has been filed: the content of the last
  of its records whose path that is.
\<close>

fun filed :: "path \<Rightarrow> item list \<Rightarrow> path \<Rightarrow> string option" where
  "filed dir [] p = None"
| "filed dir (Undecodable # r) p = filed dir r p"
| "filed dir (Meta m # r) p =
     (case filed dir r p of
        Some b \<Rightarrow> Some b
      | None \<Rightarrow> if metaPath dir m = p then Some (Blob m) else None)"

definition ex_nameless :: meta where
  "ex_nameless = \<lparr>Schema = ''olm.package'', Package = [], Name = [], Blob = ''{}''\<rparr>"

text \<open>
  A remote source that answers with new content under the Last-Modified of the Snapshot
  already published, once with a whole stream and once with a stream that breaks after
  its first record.
\<close>

definition ex_client_same :: cachingClient where
  "ex_client_same =
     ex_client (always (Response 200 ''Mon, 02 Jan 2006 15:04:05 GMT''
                          [Meta ex_package2, Meta ex_bundle2])) (cache ex_first)"

definition ex_client_broken :: cachingClient where
  "ex_client_broken =
     ex_client (always (Response 200 ''Mon, 02 Jan 2006 15:04:05 GMT''
                          [Meta ex_package2, Undecodable])) (cache ex_first)"

section \<open>Facts about the file system\<close>

lemma lookup_put: "lookup (put p n fs) q = (if q = p then Some n else lookup fs q)"
  by (induction fs) (auto simp: lookup_def)


lemma lookup_RemoveAll:
  "lookup (os_RemoveAll d fs) q = (if is_prefix d q then None else lookup fs q)"
  by (induction fs) (auto simp: lookup_def os_RemoveAll_def)

lemma lookup_touch_parent:
  "lookup (touch_parent now p fs) q =
     (if q = butlast p \<and> p \<noteq> [] \<and> (\<exists>t. lookup fs (butlast p) = Some (Dir t))
      then Some (Dir now) else lookup fs q)"
  by (auto simp: touch_parent_def lookup_put split: option.splits node.splits)


lemma split_path_plain: "CHR ''/'' \<notin> set c \<Longrightarrow> split_path acc c = [rev acc @ c]"
  by (induction c arbitrary: acc) auto


lemma activeSymlinkPath_eq: "activeSymlinkPath c name = catalogPath c name @ [''active'']"
  by (simp add: activeSymlinkPath_def filepath_Join_def filepath_Clean_def)




lemma follow_Dir: "lookup fs p = Some (Dir t) \<Longrightarrow> follow (Suc n) fs p = Inr (p, Dir t)"
  by simp



section \<open>Facts about the eviction cache and the catalog directories\<close>

lemma catalogPath_plain:
  "plain name \<Longrightarrow>
   catalogPath c name = filepath_Join [] [cacheDir c, ''clustercatalogs''] @ [name]"
  by (simp add: catalogPath_def filepath_Join_def filepath_Clean_def plain_def split_path_plain)

lemma lookup_fold_onEvict:
  "lookup (fold onEvict ev fs) p =
     (if list_ex (\<lambda>e. is_prefix (snd e) p) ev then None else lookup fs p)"
  by (induction ev arbitrary: fs) (auto simp: onEvict_def lookup_RemoveAll)

lemma touch_eq:
  "touch c name fs =
     (fst (lru_Add name (catalogPath c name) (lru c)),
      fold onEvict (snd (lru_Add name (catalogPath c name) (lru c))) fs)"
  by (simp add: touch_def split: prod.splits)

lemma lru_Add_evicted:
  "snd (lru_Add k v l) = [] \<or>
   (map_of l k = None \<and> l \<noteq> [] \<and> snd (lru_Add k v l) = [last l])"
  by (cases l) (simp_all add: lru_Add_def lru_size_def)

lemma touch_only_removes:
  "lookup (snd (touch c name fs)) p = Some nd \<Longrightarrow> lookup fs p = Some nd"
  by (simp add: touch_eq lookup_fold_onEvict split: if_splits)

lemma map_of_None_notin: "map_of l k = None \<Longrightarrow> e \<in> set l \<Longrightarrow> fst e \<noteq> k"
  by (metis map_of_eq_None_iff image_eqI)

lemma catalogPath_not_prefix:
  assumes "plain k" "plain name" "k \<noteq> name" "is_prefix (catalogPath c name) p"
  shows "\<not> is_prefix (catalogPath c k) p"
proof
  let ?B = "filepath_Join [] [cacheDir c, ''clustercatalogs'']"
  assume "is_prefix (catalogPath c k) p"
  then have "take (Suc (length ?B)) p = ?B @ [k]"
    using assms(1) by (simp add: is_prefix_def catalogPath_plain)
  moreover have "take (Suc (length ?B)) p = ?B @ [name]"
    using assms(2,4) by (simp add: is_prefix_def catalogPath_plain)
  ultimately show False using assms(3) by simp
qed

text \<open>Registering a catalog never removes anything below that catalog's own directory.\<close>

lemma touch_keeps_catalog:
  assumes "lru_ok c (lru c)" "plain name" "is_prefix (catalogPath c name) p"
  shows "lookup (snd (touch c name fs)) p = lookup fs p"
proof -
  let ?ev = "snd (lru_Add name (catalogPath c name) (lru c))"
  from lru_Add_evicted [of name "catalogPath c name" "lru c"]
  consider "?ev = []" | "map_of (lru c) name = None" "lru c \<noteq> []" "?ev = [last (lru c)]"
    by fastforce
  then show ?thesis
  proof cases
    case 1
    then show ?thesis by (simp add: touch_eq)
  next
    case 2
    let ?e = "last (lru c)"
    from 2(2) have mem: "?e \<in> set (lru c)" by simp
    with 2(1) have "fst ?e \<noteq> name" by (rule map_of_None_notin)
    moreover from mem assms(1) have "plain (fst ?e)" "snd ?e = catalogPath c (fst ?e)"
      by (auto simp: lru_ok_def list_all_iff)
    ultimately have "\<not> is_prefix (snd ?e) p"
      using catalogPath_not_prefix [of "fst ?e" name c p] assms(2,3) by simp
    with 2(3) show ?thesis
      by (simp add: touch_eq lookup_fold_onEvict onEvict_def lookup_RemoveAll)
  qed
qed

text \<open>The cache invariant is kept by every call for a plain name.\<close>

lemma touch_lru_ok:
  assumes "lru_ok c (lru c)" "plain name"
  shows "lru_ok c (fst (touch c name fs))"
proof -
  have "set (fst (lru_Add name (catalogPath c name) (lru c)))
          \<subseteq> insert (name, catalogPath c name) (set (lru c))"
    by (auto simp: lru_Add_def dest: in_set_butlastD)
  with assms show ?thesis
    by (auto simp: touch_eq lru_ok_def list_all_iff)
qed




lemma is_prefix_refl: "is_prefix d d" by (simp add: is_prefix_def)

lemma catalogPath_lru_update [simp]: "catalogPath (c\<lparr>lru := l\<rparr>) k = catalogPath c k"
  by (simp add: catalogPath_def)

lemma newRequest_no_active:
  assumes "lookup fs (activeSymlinkPath c k) = None"
  shows "newRequest ev c k fs =
    Inr \<lparr>url = baseURL c @ ''/catalogs/'' @ k @ ''/all.json'', If_Modified_Since = None\<rparr>"
  using assms by (simp add: newRequest_def os_Stat_def eval_nat_numeral Let_def)

lemma evicted_subtree_gone:
  assumes "lru_ok c (lru c)" "e \<in> set evicted" "set evicted \<subseteq> set (lru c)"
    and "is_prefix (catalogPath c (fst e)) p"
  shows "lookup (fold onEvict evicted fs) p = None"
proof -
  from assms(1-3) have "snd e = catalogPath c (fst e)"
    by (auto simp: lru_ok_def list_all_iff)
  with assms(2,4) show ?thesis
    by (auto simp: lookup_fold_onEvict list_ex_iff)
qed

lemma next_request_after_removal:
  assumes "\<And>p. is_prefix (catalogPath c k) p \<Longrightarrow> lookup fs p = None"
  shows "newRequest ev (c\<lparr>lru := l\<rparr>) k (snd (touch (c\<lparr>lru := l\<rparr>) k fs)) =
    Inr \<lparr>url = baseURL c @ ''/catalogs/'' @ k @ ''/all.json'', If_Modified_Since = None\<rparr>"
proof -
  have pre: "is_prefix (catalogPath c k) (activeSymlinkPath (c\<lparr>lru := l\<rparr>) k)"
    by (simp add: activeSymlinkPath_eq is_prefix_def)
  have "lookup (snd (touch (c\<lparr>lru := l\<rparr>) k fs)) (activeSymlinkPath (c\<lparr>lru := l\<rparr>) k) = None"
  proof (rule ccontr)
    assume "lookup (snd (touch (c\<lparr>lru := l\<rparr>) k fs)) (activeSymlinkPath (c\<lparr>lru := l\<rparr>) k) \<noteq> None"
    then obtain nd where "lookup (snd (touch (c\<lparr>lru := l\<rparr>) k fs)) (activeSymlinkPath (c\<lparr>lru := l\<rparr>) k) = Some nd"
      by blast
    then have "lookup fs (activeSymlinkPath (c\<lparr>lru := l\<rparr>) k) = Some nd"
      by (rule touch_only_removes)
    with assms [OF pre] show False by simp
  qed
  then show ?thesis
    using newRequest_no_active [of _ "c\<lparr>lru := l\<rparr>" k ev] by simp
qed

lemma lru_Add_evicted_subset: "set (snd (lru_Add k v l)) \<subseteq> set l"
  using lru_Add_evicted [of k v l] by auto

lemma lru_expire_evicted_subset: "set (snd (lru_expire k l)) \<subseteq> set l"
  by (auto simp: lru_expire_def)

section \<open>The first call on an empty disk\<close>

lemma ex_first_eq:
  "ex_first =
     \<lparr>fsys = Some [''cache'', ''clustercatalogs'', ''hub'', ''active''],
      err = None,
      cache = [(''hub'', [''cache'', ''clustercatalogs'', ''hub''])],
      disk =
        [([''cache''], Dir 1136300000),
         ([''cache'', ''clustercatalogs''], Dir 1136300000),
         ([''cache'', ''clustercatalogs'', ''hub''], Dir 1136300000),
         ([''cache'', ''clustercatalogs'', ''hub'', ''20060102_150405''], Dir 1136214245),
         ([''cache'', ''clustercatalogs'', ''hub'', ''20060102_150405'', ''etcd''],
          Dir 1136300000),
         ([''cache'', ''clustercatalogs'', ''hub'', ''20060102_150405'', ''etcd'',
           ''olm.package''], Dir 1136300000),
         ([''cache'', ''clustercatalogs'', ''hub'', ''20060102_150405'', ''etcd'',
           ''olm.package'', ''etcd.json''], File ''{p1}''),
         ([''cache'', ''clustercatalogs'', ''hub'', ''20060102_150405'', ''etcd'',
           ''olm.bundle''], Dir 1136300000),
         ([''cache'', ''clustercatalogs'', ''hub'', ''20060102_150405'', ''etcd'',
           ''olm.bundle'', ''etcd.v1.json''], File ''{b1}''),
         ([''cache'', ''clustercatalogs'', ''hub'', ''active''], Symlink ''20060102_150405'')]\<rparr>"
  by code_simp

section \<open>A status that is neither 200 nor 304\<close>

lemma getCatalogFS_other_status:
  assumes "newRequest ev c name (snd (touch c name fs)) = Inr req"
    and "httpClient c req = Response status lm body"
    and "status \<noteq> 200" and "status \<noteq> 304"
  shows "getCatalogFS ev c name fs =
    \<lparr>fsys = None, err = None, cache = fst (touch c name fs), disk = snd (touch c name fs)\<rparr>"
proof (cases "touch c name fs")
  case (Pair l fs0)
  with assms show ?thesis by (simp add: getCatalogFS_def)
qed

text \<open>
  A handler that receives neither a view nor an error goes on to read from the nil view
  and panics.
\<close>

lemma nil_view_nil_error_panics:
  "withCatalogFS True \<lparr>fsys = None, err = None, cache = l, disk = fs\<rparr> k = Panic"
  by (simp add: withCatalogFS_def)

text \<open>
  Claim C3. For a response whose status is neither 200 nor 304 the claim has
  \<open>getCatalogFS\<close> return a non-nil error. At the status 500, after a first successful
  publish, the code returns neither a view nor an error: line 68 returns the error
  variable of the completed exchange, which is nil. The disk is as before.
\<close>

theorem getCatalogFS_status_500_nil_error:
  "getCatalogFS ex_env (ex_client (always (Response 500 [] [])) (cache ex_first)) ''hub''
       (disk ex_first) =
     \<lparr>fsys = None, err = None, cache = cache ex_first, disk = disk ex_first\<rparr>"
  by code_simp

section \<open>A refresh that fails\<close>

text \<open>
  Claim C2, as stated: when the refresh fails and an active pointer exists, the call
  returns a view over the previous active Snapshot. It does not: after the first
  publish the active pointer is a directory, the next response is a 200 whose stream
  breaks after one record, and the call returns the decoding error and no view.
\<close>

theorem failed_refresh_returns_no_fallback:
  "os_Stat (disk ex_first) ex_active = Inr (Dir 1136214245)
   \<and> fsys (getCatalogFS ex_env
        (ex_client (always (Response 200 ''Tue, 03 Jan 2006 15:04:05 GMT''
                             [Meta ex_package2, Undecodable])) (cache ex_first))
        ''hub'' (disk ex_first)) = None
   \<and> err (getCatalogFS ex_env
        (ex_client (always (Response 200 ''Tue, 03 Jan 2006 15:04:05 GMT''
                             [Meta ex_package2, Undecodable])) (cache ex_first))
        ''hub'' (disk ex_first)) = Some DecodeError"
  by code_simp

text \<open>
  Claim C2, amended: whenever the refresh fails, because the status is neither 200 nor
  304 or because writing and publishing the new Snapshot fails, the call returns no
  view, whether or not an active pointer exists.
\<close>

theorem getCatalogFS_failed_refresh_no_view:
  assumes "newRequest ev c name (snd (touch c name fs)) = Inr req"
    and "httpClient c req = Response status lm body"
    and "(status \<noteq> 200 \<and> status \<noteq> 304) \<or>
         (status = 200 \<and> http_ParseTime ev lm = Some T \<and>
          fst (publish ev c name T body (snd (touch c name fs))) = Inl e)"
  shows "fsys (getCatalogFS ev c name fs) = None"
  using assms by (auto simp: getCatalogFS_def split: prod.splits sum.splits)

theorem getCatalogFS_failed_refresh_no_view_witness:
  "newRequest ex_env
       (ex_client (always (Response 200 ''Tue, 03 Jan 2006 15:04:05 GMT''
                            [Meta ex_package2, Undecodable])) (cache ex_first))
       ''hub''
       (snd (touch (ex_client (always (Response 200 ''Tue, 03 Jan 2006 15:04:05 GMT''
                                        [Meta ex_package2, Undecodable])) (cache ex_first))
               ''hub'' (disk ex_first))) =
     Inr \<lparr>url = ''https://localhost:8443/catalogs/hub/all.json'',
          If_Modified_Since = Some ''Mon, 02 Jan 2006 15:04:05 GMT''\<rparr>
   \<and> fst (publish ex_env
        (ex_client (always (Response 200 ''Tue, 03 Jan 2006 15:04:05 GMT''
                             [Meta ex_package2, Undecodable])) (cache ex_first))
        ''hub'' 1136300645 [Meta ex_package2, Undecodable]
        (snd (touch (ex_client (always (Response 200 ''Tue, 03 Jan 2006 15:04:05 GMT''
                                         [Meta ex_package2, Undecodable])) (cache ex_first))
                ''hub'' (disk ex_first)))) = Inl DecodeError
   \<and> fsys (getCatalogFS ex_env
        (ex_client (always (Response 200 ''Tue, 03 Jan 2006 15:04:05 GMT''
                             [Meta ex_package2, Undecodable])) (cache ex_first))
        ''hub'' (disk ex_first)) = None"
proof -
  let ?c = "ex_client (always (Response 200 ''Tue, 03 Jan 2006 15:04:05 GMT''
                                 [Meta ex_package2, Undecodable])) (cache ex_first)"
  let ?req = "\<lparr>url = ''https://localhost:8443/catalogs/hub/all.json'',
                If_Modified_Since = Some ''Mon, 02 Jan 2006 15:04:05 GMT''\<rparr>"
  have req: "newRequest ex_env ?c ''hub'' (snd (touch ?c ''hub'' (disk ex_first))) = Inr ?req"
    by code_simp
  have resp: "httpClient ?c ?req =
      Response 200 ''Tue, 03 Jan 2006 15:04:05 GMT'' [Meta ex_package2, Undecodable]"
    by (simp add: ex_client_def newCachingClient_def always_def)
  have parse: "http_ParseTime ex_env ''Tue, 03 Jan 2006 15:04:05 GMT'' = Some 1136300645"
    by (simp add: ex_env_def ex_ParseTime_def)
  have pub: "fst (publish ex_env ?c ''hub'' 1136300645 [Meta ex_package2, Undecodable]
                   (snd (touch ?c ''hub'' (disk ex_first)))) = Inl DecodeError"
    by code_simp
  from getCatalogFS_failed_refresh_no_view [OF req resp, of 1136300645 DecodeError]
    parse pub
  have "fsys (getCatalogFS ex_env ?c ''hub'' (disk ex_first)) = None"
    by simp
  with req pub show ?thesis by simp
qed

section \<open>Queries for what is not there\<close>

text \<open>
  Claim C8. The claim has every query that names a missing package, schema or object
  answer not-found. On the Snapshot of the first call, the schemas of a package that does
  not exist and the objects of a schema that does not exist are answered with an internal
  error: the two listing handlers turn every failure of the directory read into status
  500. The object and icon handlers, beside them, tell a missing file from other failures
  and answer 404.
\<close>

theorem list_of_missing_is_internal_error:
  "listPackageSchemas (disk ex_first) ex_active ''prometheus'' = InternalServerError
   \<and> listObjects (disk ex_first) ex_active ''etcd'' ''olm.channel'' = InternalServerError
   \<and> getObject (disk ex_first) ex_active ''etcd'' ''olm.bundle'' ''etcd.v9'' =
       NotFound ''404 page not found''
   \<and> getPackageIcon ex_Unmarshal (disk ex_first) ex_active ''prometheus'' =
       NotFound ''package not found''
   \<and> getPackageIcon ex_Unmarshal (disk ex_first) ex_active ''etcd'' =
       NotFound ''icon not found''"
  by code_simp

section \<open>A 200 response without a usable Last-Modified\<close>

lemma getCatalogFS_unparseable:
  assumes "newRequest ev c name (snd (touch c name fs)) = Inr req"
    and "httpClient c req = Response 200 lm body"
    and "http_ParseTime ev lm = None"
  shows "getCatalogFS ev c name fs =
    \<lparr>fsys = None, err = Some ParseTimeError, cache = fst (touch c name fs),
     disk = snd (touch c name fs)\<rparr>"
proof (cases "touch c name fs")
  case (Pair l fs0)
  with assms show ?thesis by (simp add: getCatalogFS_def)
qed

text \<open>
  Claim C10, as stated: when the Last-Modified header of a 200 response does not parse,
  the call returns its error before any disk write occurs. With the cache at its capacity
  and the catalog \<^verbatim>\<open>hub\<close> not yet among its entries, the registration of \<^verbatim>\<open>hub\<close> on line 39
  has dropped the oldest entry before the response is looked at, and the deletion
  callback has removed that catalog's directory: it is on the disk before the call and
  gone when the call returns the parse error.
\<close>

theorem unparseable_call_removes_evicted_catalog:
  "lookup ex_disk_full ex_oldest = Some (Dir 1136200000)
   \<and> http_ParseTime ex_env ''yesterday'' = None
   \<and> err (getCatalogFS ex_env ex_client_undated_full ''hub'' ex_disk_full) = Some ParseTimeError
   \<and> lookup (disk (getCatalogFS ex_env ex_client_undated_full ''hub'' ex_disk_full)) ex_oldest =
       None"
  by code_simp

text \<open>
  Claim C10, amended. When the response is a 200 whose Last-Modified header is absent or
  does not parse, \<open>getCatalogFS\<close> returns an error and no view, and has created and
  changed nothing: no node of the disk is new or changed (so no Snapshot directory was
  created and no record filed), and everything below the catalog's directory, the active
  pointer with it, is as it was. The only effect the call can have had on the disk is the
  removal, by the deletion callback, of the directory of another catalog that the
  registration of this one displaced from the cache.
\<close>

theorem unparseable_Last_Modified_fails_before_writing:
  assumes ok: "lru_ok c (lru c)" and name: "plain name"
    and req: "newRequest ev c name (snd (touch c name fs)) = Inr req"
    and resp: "httpClient c req = Response 200 lm body"
    and parse: "http_ParseTime ev lm = None"
  shows "err (getCatalogFS ev c name fs) = Some ParseTimeError
    \<and> fsys (getCatalogFS ev c name fs) = None
    \<and> disk (getCatalogFS ev c name fs) =
        fold onEvict (snd (lru_Add name (catalogPath c name) (lru c))) fs
    \<and> (\<forall>p nd. lookup (disk (getCatalogFS ev c name fs)) p = Some nd \<longrightarrow>
                lookup fs p = Some nd)
    \<and> (\<forall>p. is_prefix (catalogPath c name) p \<longrightarrow>
           lookup (disk (getCatalogFS ev c name fs)) p = lookup fs p)"
proof (intro conjI allI impI)
  note r = getCatalogFS_unparseable [OF req resp parse]
  show "err (getCatalogFS ev c name fs) = Some ParseTimeError" by (simp add: r)
  show "fsys (getCatalogFS ev c name fs) = None" by (simp add: r)
  show "disk (getCatalogFS ev c name fs) =
          fold onEvict (snd (lru_Add name (catalogPath c name) (lru c))) fs"
    by (simp add: r touch_eq)
  show "lookup fs p = Some nd"
    if "lookup (disk (getCatalogFS ev c name fs)) p = Some nd" for p nd
    using that by (simp add: r) (rule touch_only_removes)
  show "lookup (disk (getCatalogFS ev c name fs)) p = lookup fs p"
    if "is_prefix (catalogPath c name) p" for p
    using that by (simp add: r touch_keeps_catalog [OF ok name])
qed

theorem unparseable_Last_Modified_fails_before_writing_witness:
  "lru_ok ex_client_undated (lru ex_client_undated) \<and> plain ''hub''
   \<and> newRequest ex_env ex_client_undated ''hub''
        (snd (touch ex_client_undated ''hub'' (disk ex_first))) = Inr ex_request
   \<and> httpClient ex_client_undated ex_request = Response 200 ''yesterday'' [Meta ex_package2]
   \<and> http_ParseTime ex_env ''yesterday'' = None
   \<and> err (getCatalogFS ex_env ex_client_undated ''hub'' (disk ex_first)) = Some ParseTimeError
   \<and> fsys (getCatalogFS ex_env ex_client_undated ''hub'' (disk ex_first)) = None
   \<and> lookup (disk (getCatalogFS ex_env ex_client_undated ''hub'' (disk ex_first))) ex_active =
       lookup (disk ex_first) ex_active"
proof -
  have ok: "lru_ok ex_client_undated (lru ex_client_undated)" by code_simp
  have name: "plain ''hub''" by (simp add: plain_def)
  have req: "newRequest ex_env ex_client_undated ''hub''
               (snd (touch ex_client_undated ''hub'' (disk ex_first))) = Inr ex_request"
    by code_simp
  have resp: "httpClient ex_client_undated ex_request =
                Response 200 ''yesterday'' [Meta ex_package2]"
    by (simp add: ex_client_undated_def ex_client_def newCachingClient_def always_def)
  have parse: "http_ParseTime ex_env ''yesterday'' = None"
    by (simp add: ex_env_def ex_ParseTime_def)
  have pre: "is_prefix (catalogPath ex_client_undated ''hub'') ex_active" by code_simp
  from unparseable_Last_Modified_fails_before_writing [OF ok name req resp parse] pre
  have "err (getCatalogFS ex_env ex_client_undated ''hub'' (disk ex_first)) = Some ParseTimeError"
    and "fsys (getCatalogFS ex_env ex_client_undated ''hub'' (disk ex_first)) = None"
    and "lookup (disk (getCatalogFS ex_env ex_client_undated ''hub'' (disk ex_first))) ex_active =
           lookup (disk ex_first) ex_active"
    by blast+
  with ok name req resp parse show ?thesis by simp
qed

section \<open>A 304 response\<close>

lemma getCatalogFS_not_modified:
  assumes "newRequest ev c name (snd (touch c name fs)) = Inr req"
    and "httpClient c req = Response 304 lm body"
  shows "getCatalogFS ev c name fs =
    \<lparr>fsys = Some (activeSymlinkPath c name), err = None, cache = fst (touch c name fs),
     disk = snd (touch c name fs)\<rparr>"
proof (cases "touch c name fs")
  case (Pair l fs0)
  with assms show ?thesis by (simp add: getCatalogFS_def)
qed

text \<open>
  Claim C5, as stated: a call that receives a 304 performs no file system write of any
  kind. With the cache at its capacity and the catalog \<^verbatim>\<open>hub\<close> not yet among its
  entries, registering \<^verbatim>\<open>hub\<close> drops the oldest entry, and the deletion callback removes
  that catalog's directory during the call: the directory is on the disk before the call
  and gone after it, while the call answers with the view of \<^verbatim>\<open>hub\<close>.
\<close>

theorem not_modified_call_removes_evicted_catalog:
  "lookup ex_disk_full ex_oldest = Some (Dir 1136200000)
   \<and> fsys (getCatalogFS ex_env (ex_client (always (Response 304 [] [])) ex_lru_full)
             ''hub'' ex_disk_full) = Some ex_active
   \<and> lookup (disk (getCatalogFS ex_env (ex_client (always (Response 304 [] [])) ex_lru_full)
                      ''hub'' ex_disk_full)) ex_oldest = None"
  by code_simp

text \<open>
  Claim C5, amended: a call that receives a 304 creates and changes nothing on the disk;
  the only effect it can have is the removal, by the deletion callback, of the directory
  of another catalog that the registration of this one displaced from the cache. The
  view returned is rooted at the active pointer, and everything below the catalog's
  directory, the pointer and the Snapshot it names among it, is unchanged.
\<close>

theorem not_modified_writes_nothing:
  assumes ok: "lru_ok c (lru c)" and name: "plain name"
    and req: "newRequest ev c name (snd (touch c name fs)) = Inr req"
    and resp: "httpClient c req = Response 304 lm body"
  shows "fsys (getCatalogFS ev c name fs) = Some (activeSymlinkPath c name)
    \<and> err (getCatalogFS ev c name fs) = None
    \<and> disk (getCatalogFS ev c name fs) =
        fold onEvict (snd (lru_Add name (catalogPath c name) (lru c))) fs
    \<and> (\<forall>p nd. lookup (disk (getCatalogFS ev c name fs)) p = Some nd \<longrightarrow>
                lookup fs p = Some nd)
    \<and> (\<forall>p. is_prefix (catalogPath c name) p \<longrightarrow>
           lookup (disk (getCatalogFS ev c name fs)) p = lookup fs p)"
proof (intro conjI allI impI)
  note r = getCatalogFS_not_modified [OF req resp]
  show "fsys (getCatalogFS ev c name fs) = Some (activeSymlinkPath c name)" by (simp add: r)
  show "err (getCatalogFS ev c name fs) = None" by (simp add: r)
  show "disk (getCatalogFS ev c name fs) =
          fold onEvict (snd (lru_Add name (catalogPath c name) (lru c))) fs"
    by (simp add: r touch_eq)
  show "lookup fs p = Some nd"
    if "lookup (disk (getCatalogFS ev c name fs)) p = Some nd" for p nd
    using that by (simp add: r) (rule touch_only_removes)
  show "lookup (disk (getCatalogFS ev c name fs)) p = lookup fs p"
    if "is_prefix (catalogPath c name) p" for p
    using that by (simp add: r touch_keeps_catalog [OF ok name])
qed

theorem not_modified_writes_nothing_witness:
  "lru_ok ex_client_304 (lru ex_client_304) \<and> plain ''hub''
   \<and> newRequest ex_env ex_client_304 ''hub''
        (snd (touch ex_client_304 ''hub'' (disk ex_first))) = Inr ex_request
   \<and> httpClient ex_client_304 ex_request = Response 304 [] []
   \<and> fsys (getCatalogFS ex_env ex_client_304 ''hub'' (disk ex_first)) =
       Some (activeSymlinkPath ex_client_304 ''hub'')
   \<and> lookup (disk (getCatalogFS ex_env ex_client_304 ''hub'' (disk ex_first))) ex_snapshot =
       lookup (disk ex_first) ex_snapshot"
proof -
  have ok: "lru_ok ex_client_304 (lru ex_client_304)" by code_simp
  have name: "plain ''hub''" by (simp add: plain_def)
  have req: "newRequest ex_env ex_client_304 ''hub''
               (snd (touch ex_client_304 ''hub'' (disk ex_first))) = Inr ex_request"
    by code_simp
  have resp: "httpClient ex_client_304 ex_request = Response 304 [] []"
    by (simp add: ex_client_304_def ex_client_def newCachingClient_def always_def)
  have pre: "is_prefix (catalogPath ex_client_304 ''hub'') ex_snapshot" by code_simp
  from not_modified_writes_nothing [OF ok name req resp] pre
  have "fsys (getCatalogFS ex_env ex_client_304 ''hub'' (disk ex_first)) =
          Some (activeSymlinkPath ex_client_304 ''hub'')"
    and "lookup (disk (getCatalogFS ex_env ex_client_304 ''hub'' (disk ex_first))) ex_snapshot =
           lookup (disk ex_first) ex_snapshot"
    by blast+
  with ok name req resp show ?thesis by simp
qed

section \<open>The freshness round trip\<close>









section \<open>Eviction\<close>

text \<open>
  Claim C7. When an entry leaves the cache, displaced by the registration of another
  catalog at the capacity of 100 entries or expired, the deletion callback removes the
  whole directory of that catalog: no path below it is left. The next negotiation for
  that catalog finds no active pointer and sends its request without an
  If-Modified-Since header, whatever the cache holds by then.
\<close>

theorem eviction_forces_full_fetch:
  assumes ok: "lru_ok c (lru c)"
    and ev: "(e \<in> set (snd (lru_Add name (catalogPath c name) (lru c))) \<and>
                fs' = snd (touch c name fs))
             \<or> (e \<in> set (snd (lru_expire k (lru c))) \<and> fs' = snd (expire c k fs))"
  shows "(\<forall>p. is_prefix (snd e) p \<longrightarrow> lookup fs' p = None)
    \<and> snd e = catalogPath c (fst e)
    \<and> newRequest ev (c\<lparr>lru := l\<rparr>) (fst e) (snd (touch (c\<lparr>lru := l\<rparr>) (fst e) fs')) =
        Inr \<lparr>url = baseURL c @ ''/catalogs/'' @ fst e @ ''/all.json'',
             If_Modified_Since = None\<rparr>"
proof -
  from ev obtain evicted where mem: "e \<in> set evicted" and sub: "set evicted \<subseteq> set (lru c)"
    and fs': "fs' = fold onEvict evicted fs"
    using lru_Add_evicted_subset [of name "catalogPath c name" "lru c"]
      lru_expire_evicted_subset [of k "lru c"]
    by (auto simp: touch_eq expire_def split: prod.splits)
  from ok mem sub have e: "snd e = catalogPath c (fst e)"
    by (auto simp: lru_ok_def list_all_iff)
  have gone: "lookup fs' p = None" if "is_prefix (catalogPath c (fst e)) p" for p
    unfolding fs' using ok mem sub that by (rule evicted_subtree_gone)
  from gone have "newRequest ev (c\<lparr>lru := l\<rparr>) (fst e) (snd (touch (c\<lparr>lru := l\<rparr>) (fst e) fs')) =
        Inr \<lparr>url = baseURL c @ ''/catalogs/'' @ fst e @ ''/all.json'',
             If_Modified_Since = None\<rparr>"
    by (rule next_request_after_removal)
  with gone e show ?thesis by simp
qed


theorem eviction_forces_full_fetch_witness:
  "lru_ok ex_client_full (lru ex_client_full)
   \<and> (ex_key 99, ex_oldest) \<in>
       set (snd (lru_Add ''hub'' (catalogPath ex_client_full ''hub'') (lru ex_client_full)))
   \<and> lookup ex_disk_full (ex_oldest @ [''active'']) = Some (Symlink ''20060101_000000'')
   \<and> lookup (snd (touch ex_client_full ''hub'' ex_disk_full)) (ex_oldest @ [''active'']) = None
   \<and> newRequest ex_env (ex_client_full\<lparr>lru := []\<rparr>) (ex_key 99)
        (snd (touch (ex_client_full\<lparr>lru := []\<rparr>) (ex_key 99)
               (snd (touch ex_client_full ''hub'' ex_disk_full)))) =
       Inr \<lparr>url = baseURL ex_client_full @ ''/catalogs/'' @ ex_key 99 @ ''/all.json'',
            If_Modified_Since = None\<rparr>"
proof -
  have ok: "lru_ok ex_client_full (lru ex_client_full)" by code_simp
  have mem: "(ex_key 99, ex_oldest) \<in>
       set (snd (lru_Add ''hub'' (catalogPath ex_client_full ''hub'') (lru ex_client_full)))"
    by code_simp
  have before: "lookup ex_disk_full (ex_oldest @ [''active'']) = Some (Symlink ''20060101_000000'')"
    by code_simp
  have pre: "is_prefix ex_oldest (ex_oldest @ [''active''])"
    by (simp add: is_prefix_def)
  from eviction_forces_full_fetch [where c = ex_client_full and e = "(ex_key 99, ex_oldest)"
      and name = "''hub''" and fs' = "snd (touch ex_client_full ''hub'' ex_disk_full)"
      and fs = ex_disk_full and ev = ex_env and l = "[]"] ok mem pre
  have "lookup (snd (touch ex_client_full ''hub'' ex_disk_full)) (ex_oldest @ [''active'']) = None"
    and "newRequest ex_env (ex_client_full\<lparr>lru := []\<rparr>) (ex_key 99)
        (snd (touch (ex_client_full\<lparr>lru := []\<rparr>) (ex_key 99)
               (snd (touch ex_client_full ''hub'' ex_disk_full)))) =
       Inr \<lparr>url = baseURL ex_client_full @ ''/catalogs/'' @ ex_key 99 @ ''/all.json'',
            If_Modified_Since = None\<rparr>"
    by auto
  with ok mem before show ?thesis by simp
qed

section \<open>Listings\<close>




















section \<open>Filing the records\<close>

lemma writeMeta_files:
  "writeMeta now dir m fs = (None, fs') \<Longrightarrow> lookup fs' (metaPath dir m) = Some (File (Blob m))"
  by (auto simp: writeMeta_def os_WriteFile_def lookup_put split: sum.splits option.splits node.splits)

lemma mkdirs_keeps_File:
  "mkdirs now done cs fs = Inr fs' \<Longrightarrow> lookup fs q = Some (File b) \<Longrightarrow>
   lookup fs' q = Some (File b)"
proof (induction cs arbitrary: "done" fs)
  case Nil
  then show ?case by simp
next
  case (Cons c cs)
  show ?case
  proof (cases "lookup fs (done @ [c])")
    case None
    with Cons.prems have "mkdirs now (done @ [c]) cs
        (put (done @ [c]) (Dir now) (touch_parent now (done @ [c]) fs)) = Inr fs'"
      by simp
    moreover have "lookup (put (done @ [c]) (Dir now) (touch_parent now (done @ [c]) fs)) q =
        Some (File b)"
      using Cons.prems(2) None by (auto simp: lookup_put lookup_touch_parent)
    ultimately show ?thesis by (rule Cons.IH)
  next
    case (Some nd)
    with Cons.prems show ?thesis
      by (cases nd) (auto intro: Cons.IH)
  qed
qed

lemma writeMeta_keeps_File:
  assumes "writeMeta now dir m fs = (e, fs')" "lookup fs q = Some (File b)" "q \<noteq> metaPath dir m"
  shows "lookup fs' q = Some (File b)"
proof (cases "os_MkdirAll now (filepath_Dir (metaPath dir m)) fs")
  case (Inl a)
  with assms show ?thesis by (simp add: writeMeta_def)
next
  case (Inr fs1)
  then have 1: "lookup fs1 q = Some (File b)"
    using assms(2) by (auto simp: os_MkdirAll_def intro: mkdirs_keeps_File)
  show ?thesis
  proof (cases "os_WriteFile now (metaPath dir m) (Blob m) fs1")
    case (Inl a)
    with Inr assms(1) 1 show ?thesis by (simp add: writeMeta_def)
  next
    case (Inr fs2)
    then have "lookup fs2 q = Some (File b)"
      using 1 assms(3)
      by (auto simp: os_WriteFile_def lookup_put lookup_touch_parent
               split: option.splits node.splits)
    with Inr \<open>os_MkdirAll now (filepath_Dir (metaPath dir m)) fs = Inr fs1\<close> assms(1)
    show ?thesis by (simp add: writeMeta_def)
  qed
qed

lemma writeCatalog_keeps_File:
  "writeCatalog now dir body fs = (e, fs') \<Longrightarrow> lookup fs q = Some (File b) \<Longrightarrow>
   filed dir body q = None \<Longrightarrow> lookup fs' q = Some (File b)"
proof (induction body arbitrary: fs)
  case Nil
  then show ?case by simp
next
  case (Cons i body)
  show ?case
  proof (cases i)
    case Undecodable
    with Cons.prems show ?thesis by simp
  next
    case (Meta m)
    obtain e1 fs1 where w: "writeMeta now dir m fs = (e1, fs1)" by fastforce
    from Cons.prems(3) Meta have ne: "q \<noteq> metaPath dir m" and rest: "filed dir body q = None"
      by (auto split: option.splits if_splits)
    from w Cons.prems(2) ne have 1: "lookup fs1 q = Some (File b)"
      by (rule writeMeta_keeps_File)
    show ?thesis
    proof (cases e1)
      case None
      with Cons.prems(1) Meta w have "writeCatalog now dir body fs1 = (e, fs')" by simp
      then show ?thesis using 1 rest by (rule Cons.IH)
    next
      case (Some a)
      with Cons.prems(1) Meta w 1 show ?thesis by simp
    qed
  qed
qed

lemma writeCatalog_files:
  "writeCatalog now dir body fs = (None, fs') \<Longrightarrow> filed dir body p = Some b \<Longrightarrow>
   lookup fs' p = Some (File b)"
proof (induction body arbitrary: fs)
  case Nil
  then show ?case by simp
next
  case (Cons i body)
  show ?case
  proof (cases i)
    case Undecodable
    with Cons.prems show ?thesis by simp
  next
    case (Meta m)
    obtain e1 fs1 where w: "writeMeta now dir m fs = (e1, fs1)" by fastforce
    with Cons.prems(1) Meta have e1: "e1 = None" and r: "writeCatalog now dir body fs1 = (None, fs')"
      by (auto split: option.splits)
    show ?thesis
    proof (cases "filed dir body p")
      case (Some b')
      with Cons.prems(2) Meta have "b' = b" by simp
      with Some r show ?thesis by (auto intro: Cons.IH)
    next
      case None
      with Cons.prems(2) Meta have p: "metaPath dir m = p" and b: "b = Blob m"
        by (auto split: if_splits)
      from w e1 have "lookup fs1 p = Some (File b)"
        using writeMeta_files [of now dir m fs fs1] p b by simp
      with r show ?thesis using None by (rule writeCatalog_keeps_File)
    qed
  qed
qed

lemma filed_member: "Meta m \<in> set body \<Longrightarrow> filed dir body (metaPath dir m) \<noteq> None"
proof (induction body)
  case Nil
  then show ?case by simp
next
  case (Cons i body)
  then show ?case by (cases i) (auto split: option.splits)
qed


lemma packageName_rule:
  "packageName m =
     (if Schema m = SchemaPackage then (if Name m = [] then ''__global'' else Name m)
      else if Package m = [] then ''__global'' else Package m)"
  by (simp add: packageName_def Let_def)

text \<open>
  Claim C6, as stated: the bucket of a record of the package schema is its name. A
  record of the package schema with an empty name is filed under \<^verbatim>\<open>__global\<close>, not under
  the empty bucket the claim's rule gives: nothing is at the claim's path.
\<close>

theorem nameless_package_goes_to_global:
  "fst (writeMeta 1136300000 ex_snapshot ex_nameless []) = None
   \<and> spec_bucket ex_nameless = []
   \<and> lookup (snd (writeMeta 1136300000 ex_snapshot ex_nameless []))
       (filepath_Join ex_snapshot
          [spec_bucket ex_nameless, Schema ex_nameless, Name ex_nameless @ ''.json'']) = None
   \<and> lookup (snd (writeMeta 1136300000 ex_snapshot ex_nameless []))
       (filepath_Join ex_snapshot [''__global'', ''olm.package'', ''.json'']) =
       Some (File ''{}'')"
  by code_simp

text \<open>
  Claim C6, amended: a record that is filed without error has its content at
  \<^verbatim>\<open>{snapshot}/{bucket}/{schema}/{name}.json\<close>, whatever was there before, where the bucket
  is the record's name when the schema is the package schema and the record's package
  otherwise, and is \<^verbatim>\<open>__global\<close> whenever the name or package so chosen is empty. After a
  whole stream has been filed, the path of each of its records holds the content of the
  last record of the stream with that path.
\<close>

theorem writeCatalog_files_every_record:
  "(writeMeta now dir m fs = (None, fs1) \<longrightarrow>
      lookup fs1
        (filepath_Join dir
           [if Schema m = SchemaPackage then (if Name m = [] then ''__global'' else Name m)
            else if Package m = [] then ''__global'' else Package m,
            Schema m, Name m @ ''.json'']) = Some (File (Blob m)))
   \<and> (writeCatalog now dir body fs = (None, fs') \<and> Meta m \<in> set body \<longrightarrow>
        (\<exists>b. filed dir body (metaPath dir m) = Some b \<and>
             lookup fs' (metaPath dir m) = Some (File b)))"
proof (intro conjI impI)
  assume "writeMeta now dir m fs = (None, fs1)"
  then have "lookup fs1 (metaPath dir m) = Some (File (Blob m))" by (rule writeMeta_files)
  then show "lookup fs1
        (filepath_Join dir
           [if Schema m = SchemaPackage then (if Name m = [] then ''__global'' else Name m)
            else if Package m = [] then ''__global'' else Package m,
            Schema m, Name m @ ''.json'']) = Some (File (Blob m))"
    by (simp only: metaPath_def packageName_rule)
next
  assume a: "writeCatalog now dir body fs = (None, fs') \<and> Meta m \<in> set body"
  then obtain b where b: "filed dir body (metaPath dir m) = Some b"
    using filed_member [of m body dir] by auto
  with a have "lookup fs' (metaPath dir m) = Some (File b)"
    by (auto intro: writeCatalog_files)
  with b show "\<exists>b. filed dir body (metaPath dir m) = Some b \<and>
             lookup fs' (metaPath dir m) = Some (File b)" by simp
qed

theorem writeCatalog_files_every_record_witness:
  "writeMeta 1136300000 ex_snapshot ex_bundle [] =
     (None, snd (writeMeta 1136300000 ex_snapshot ex_bundle []))
   \<and> lookup (snd (writeMeta 1136300000 ex_snapshot ex_bundle []))
       (ex_snapshot @ [''etcd'', ''olm.bundle'', ''etcd.v1.json'']) = Some (File ''{b1}'')
   \<and> writeCatalog 1136300000 ex_snapshot [Meta ex_package, Meta ex_package2] [] =
       (None, snd (writeCatalog 1136300000 ex_snapshot [Meta ex_package, Meta ex_package2] []))
   \<and> lookup (snd (writeCatalog 1136300000 ex_snapshot [Meta ex_package, Meta ex_package2] []))
       (metaPath ex_snapshot ex_package) = Some (File ''{p2}'')"
proof -
  have w: "writeMeta 1136300000 ex_snapshot ex_bundle [] =
     (None, snd (writeMeta 1136300000 ex_snapshot ex_bundle []))" by code_simp
  have p: "filepath_Join ex_snapshot
           [if Schema ex_bundle = SchemaPackage
            then (if Name ex_bundle = [] then ''__global'' else Name ex_bundle)
            else if Package ex_bundle = [] then ''__global'' else Package ex_bundle,
            Schema ex_bundle, Name ex_bundle @ ''.json''] =
       ex_snapshot @ [''etcd'', ''olm.bundle'', ''etcd.v1.json'']" by code_simp
  have b: "Blob ex_bundle = ''{b1}''" by (simp add: ex_bundle_def)
  have c: "writeCatalog 1136300000 ex_snapshot [Meta ex_package, Meta ex_package2] [] =
       (None, snd (writeCatalog 1136300000 ex_snapshot [Meta ex_package, Meta ex_package2] []))"
    by code_simp
  have f: "filed ex_snapshot [Meta ex_package, Meta ex_package2] (metaPath ex_snapshot ex_package) =
       Some ''{p2}''" by code_simp
  note t = writeCatalog_files_every_record [of 1136300000 ex_snapshot ex_bundle "[]"
      "snd (writeMeta 1136300000 ex_snapshot ex_bundle [])"
      "[Meta ex_package, Meta ex_package2]"
      "snd (writeCatalog 1136300000 ex_snapshot [Meta ex_package, Meta ex_package2] [])"]
  from t w p b have 1: "lookup (snd (writeMeta 1136300000 ex_snapshot ex_bundle []))
       (ex_snapshot @ [''etcd'', ''olm.bundle'', ''etcd.v1.json'']) = Some (File ''{b1}'')"
    by simp
  note t2 = writeCatalog_files_every_record [of 1136300000 ex_snapshot ex_package "[]"
      "snd (writeMeta 1136300000 ex_snapshot ex_package [])"
      "[Meta ex_package, Meta ex_package2]"
      "snd (writeCatalog 1136300000 ex_snapshot [Meta ex_package, Meta ex_package2] [])"]
  from t2 c f have 2: "lookup (snd (writeCatalog 1136300000 ex_snapshot [Meta ex_package, Meta ex_package2] []))
       (metaPath ex_snapshot ex_package) = Some (File ''{p2}'')"
    by auto
  from w 1 c 2 show ?thesis by simp
qed

section \<open>Publishing by rename\<close>

text \<open>
  The walk over a stream passes through the state that the walk over each beginning of
  the stream ends in: what is on the disk after the first records have been filed is what
  \<open>writeCatalog\<close> leaves when given those records alone.
\<close>

lemma writeCatalog_append:
  "writeCatalog now dir (xs @ ys) fs =
     (case writeCatalog now dir xs fs of
        (Some e, fs1) \<Rightarrow> (Some e, fs1)
      | (None, fs1) \<Rightarrow> writeCatalog now dir ys fs1)"
proof (induction xs arbitrary: fs)
  case Nil
  then show ?case by simp
next
  case (Cons i xs)
  then show ?case by (cases i) (auto split: prod.splits option.splits)
qed

text \<open>
  Claim C1. The claim has the active pointer resolve, at every moment, to a complete
  Snapshot and never to a directory that is being decomposed. The Snapshot directory is
  named by the Last-Modified time alone, so a 200 response that carries the time of the
  Snapshot already published is decomposed into the very directory the active pointer
  names. After the first call, with such a response of two new records: the directory
  to be written is the one the pointer resolves to; when the first record has been
  filed the pointer still resolves there, the package file has the new content and the
  new bundle is not there yet; the call then succeeds. With a stream that breaks after
  its first record the call fails with the decoding error, and the active pointer is left
  naming a directory that holds the new package file beside the old bundle.
\<close>

theorem active_snapshot_rewritten_in_place:
  "follow 40 (disk ex_first) ex_active = Inr (ex_snapshot, Dir 1136214245)
   \<and> snd (touch ex_client_same ''hub'' (disk ex_first)) = disk ex_first
   \<and> filepath_Join (catalogPath ex_client_same ''hub'') [format_Stamp ex_env 1136214245] =
       ex_snapshot
   \<and> follow 40 (snd (writeCatalog (clock ex_env) ex_snapshot [Meta ex_package2] (disk ex_first)))
        ex_active = Inr (ex_snapshot, Dir 1136214245)
   \<and> lookup (snd (writeCatalog (clock ex_env) ex_snapshot [Meta ex_package2] (disk ex_first)))
        (ex_snapshot @ [''etcd'', ''olm.package'', ''etcd.json'']) = Some (File ''{p2}'')
   \<and> lookup (snd (writeCatalog (clock ex_env) ex_snapshot [Meta ex_package2] (disk ex_first)))
        (ex_snapshot @ [''etcd'', ''olm.bundle'', ''etcd.v2.json'']) = None
   \<and> fsys (getCatalogFS ex_env ex_client_same ''hub'' (disk ex_first)) = Some ex_active
   \<and> err (getCatalogFS ex_env ex_client_broken ''hub'' (disk ex_first)) = Some DecodeError
   \<and> follow 40 (disk (getCatalogFS ex_env ex_client_broken ''hub'' (disk ex_first))) ex_active =
       Inr (ex_snapshot, Dir 1136214245)
   \<and> lookup (disk (getCatalogFS ex_env ex_client_broken ''hub'' (disk ex_first)))
        (ex_snapshot @ [''etcd'', ''olm.package'', ''etcd.json'']) = Some (File ''{p2}'')
   \<and> lookup (disk (getCatalogFS ex_env ex_client_broken ''hub'' (disk ex_first)))
        (ex_snapshot @ [''etcd'', ''olm.bundle'', ''etcd.v1.json'']) = Some (File ''{b1}'')"
  by code_simp

end
